theory Spec2Isabelle
  imports Main
begin

section \<open>The browser environment\<close>

text \<open>
  The front end keeps its persistent state in \<^verbatim>\<open>localStorage\<close> (a dictionary from
  keys to strings, \<^verbatim>\<open>getItem\<close> answering \<^verbatim>\<open>null\<close> for a missing key) and
  navigates by assigning to \<^verbatim>\<open>window.location.href\<close>. Every call that acts on
  the environment is also appended to a trace, in call order, so that a property
  counting how often something happens can be stated.
\<close>

datatype toast_type = ToastSuccess | ToastError | ToastInfo

datatype effect =
    RemoveItem string
  | SetItem string string
  | AssignHref string
  | Toast toast_type string
  | ConsoleError string

record browser =
  localStorage :: "string \<rightharpoonup> string"
  location_href :: string
  effects :: "effect list"

definition localStorage_getItem :: "string \<Rightarrow> 'a browser_scheme \<Rightarrow> string option" where
  "localStorage_getItem key b = localStorage b key"

definition localStorage_removeItem :: "string \<Rightarrow> 'a browser_scheme \<Rightarrow> 'a browser_scheme" where
  "localStorage_removeItem key b =
     b\<lparr>localStorage := (localStorage b)(key := None), effects := effects b @ [RemoveItem key]\<rparr>"

definition localStorage_setItem :: "string \<Rightarrow> string \<Rightarrow> 'a browser_scheme \<Rightarrow> 'a browser_scheme" where
  "localStorage_setItem key v b =
     b\<lparr>localStorage := (localStorage b)(key \<mapsto> v), effects := effects b @ [SetItem key v]\<rparr>"

definition assign_location_href :: "string \<Rightarrow> 'a browser_scheme \<Rightarrow> 'a browser_scheme" where
  "assign_location_href target b =
     b\<lparr>location_href := target, effects := effects b @ [AssignHref target]\<rparr>"

definition toast_success :: "string \<Rightarrow> 'a browser_scheme \<Rightarrow> 'a browser_scheme" where
  "toast_success message b = b\<lparr>effects := effects b @ [Toast ToastSuccess message]\<rparr>"

definition toast_error :: "string \<Rightarrow> 'a browser_scheme \<Rightarrow> 'a browser_scheme" where
  "toast_error message b = b\<lparr>effects := effects b @ [Toast ToastError message]\<rparr>"

definition console_error :: "string \<Rightarrow> 'a browser_scheme \<Rightarrow> 'a browser_scheme" where
  "console_error message b = b\<lparr>effects := effects b @ [ConsoleError message]\<rparr>"

text \<open>
  JavaScript truthiness of a value that is a string, \<^verbatim>\<open>null\<close> or
  \<^verbatim>\<open>undefined\<close>: only a non-empty string is truthy.
\<close>

definition truthy :: "string option \<Rightarrow> bool" where
  "truthy v = (case v of None \<Rightarrow> False | Some s \<Rightarrow> s \<noteq> [])"

section \<open>utils/api.js: the API client\<close>

text \<open>
  A request configuration as the interceptors see it. The body and the query parameters
  are lists of named values, \<^verbatim>\<open>null\<close> being \<open>None\<close>.
\<close>

record request_config =
  http_method :: string
  url :: string
  headers :: "string \<rightharpoonup> string"
  body :: "(string \<times> string option) list option"
  params :: "(string \<times> string option) list"

text \<open>
  What comes back: a response with its status, headers and decoded payload, or an error.
  On a rejected status the error carries the response, whose payload may have a
  \<^verbatim>\<open>detail\<close> text; on a network failure \<^verbatim>\<open>error.response\<close> is undefined.
\<close>

record 'd http_response =
  status :: nat
  response_headers :: "string \<rightharpoonup> string"
  data :: 'd

record error_body =
  detail :: "string option"

record axios_error =
  response :: "error_body option http_response option"

type_synonym 'd reply = "axios_error + 'd http_response"

text \<open>
  The network and the backend are outside the repository: a function from the request
  that leaves the client to the reply that arrives.
\<close>

type_synonym 'd adapter = "request_config \<Rightarrow> 'd reply"

text \<open>\<^verbatim>\<open>axios.create({ baseURL, timeout, headers: {'Content-Type': 'application/json'} })\<close>\<close>

definition api_default_headers :: "string \<rightharpoonup> string" where
  "api_default_headers = [''Content-Type'' \<mapsto> ''application/json'']"

text \<open>The request interceptor: \<^verbatim>\<open>if (token) config.headers.Authorization = `Bearer ${token}`\<close>.\<close>

definition request_interceptor :: "request_config \<Rightarrow> 'a browser_scheme \<Rightarrow> request_config" where
  "request_interceptor config b =
     (let token = localStorage_getItem ''authToken'' b in
      case token of
        None \<Rightarrow> config
      | Some t \<Rightarrow>
          if truthy token
          then config\<lparr>headers := (headers config)(''Authorization'' \<mapsto> ''Bearer '' @ t)\<rparr>
          else config)"

text \<open>\<^verbatim>\<open>error.response?.status\<close>\<close>

definition error_status :: "axios_error \<Rightarrow> nat option" where
  "error_status error = (case response error of None \<Rightarrow> None | Some r \<Rightarrow> Some (status r))"

text \<open>
  The response interceptor. A fulfilled response is passed on unchanged. The handler of
  a rejected one acts on the environment and rejects again with the same error.
\<close>

definition response_fulfilled :: "'d http_response \<Rightarrow> 'd http_response" where
  "response_fulfilled r = r"

definition response_rejected :: "axios_error \<Rightarrow> 'a browser_scheme \<Rightarrow> 'a browser_scheme" where
  "response_rejected error b =
     (if error_status error = Some 401
      then
        (let b1 = localStorage_removeItem ''authToken'' b;
             b2 = localStorage_removeItem ''userData'' b1
         in assign_location_href ''/login'' b2)
      else b)"

text \<open>
  One call through the client. It has two halves, between which other handlers of the
  page may run: the request leaves with the configuration the request interceptor made,
  and later the reply is settled by the response interceptor.
\<close>

definition api_settle :: "'d reply \<Rightarrow> 'a browser_scheme \<Rightarrow> 'd reply \<times> 'a browser_scheme" where
  "api_settle r b =
     (case r of
        Inr resp \<Rightarrow> (Inr (response_fulfilled resp), b)
      | Inl error \<Rightarrow> (Inl error, response_rejected error b))"

definition api_request ::
  "request_config \<Rightarrow> 'd adapter \<Rightarrow> 'a browser_scheme \<Rightarrow> 'd reply \<times> 'a browser_scheme" where
  "api_request config adapter b = api_settle (adapter (request_interceptor config b)) b"

definition api_get :: "string \<Rightarrow> (string \<times> string option) list \<Rightarrow> request_config" where
  "api_get path ps =
     \<lparr>http_method = ''get'', url = path, headers = api_default_headers, body = None, params = ps\<rparr>"

definition api_post ::
  "string \<Rightarrow> (string \<times> string option) list option \<Rightarrow> (string \<times> string option) list \<Rightarrow> request_config" where
  "api_post path payload ps =
     \<lparr>http_method = ''post'', url = path, headers = api_default_headers, body = payload, params = ps\<rparr>"

text \<open>
  Replies of several calls in flight arrive one after the other (the page runs one
  handler at a time); each rejected one is handled by the response interceptor.
\<close>

fun settle_rejections :: "axios_error list \<Rightarrow> 'a browser_scheme \<Rightarrow> 'a browser_scheme" where
  "settle_rejections [] b = b"
| "settle_rejections (error # rest) b = settle_rejections rest (response_rejected error b)"

subsection \<open>authAPI\<close>

text \<open>
  The payloads of the backend are typed as the spec's data model has them: a user
  profile, and the answer to a login with its optional \<^verbatim>\<open>user\<close> and
  \<^verbatim>\<open>access_token\<close> (\<open>None\<close> for a field that is absent). The body of a
  fulfilled login reply may also be \<^verbatim>\<open>null\<close> or missing: \<open>None\<close>.
\<close>

record user_data =
  username :: string
  role :: "string option"
  totpEnabled :: "bool option"

record login_response =
  response_user :: "user_data option"
  access_token :: "string option"

text \<open>\<^verbatim>\<open>const response = await api.<verb>(...); return response.data\<close>: a rejection is thrown on.\<close>

definition response_data :: "'d reply \<times> 'a browser_scheme \<Rightarrow> (axios_error + 'd) \<times> 'a browser_scheme" where
  "response_data rb =
     (case rb of
        (Inr resp, b) \<Rightarrow> (Inr (data resp), b)
      | (Inl error, b) \<Rightarrow> (Inl error, b))"

text \<open>\<^verbatim>\<open>api.post('/auth/login', { username, password, totp_code: totpCode })\<close>\<close>

definition login_request :: "string \<Rightarrow> string \<Rightarrow> string option \<Rightarrow> request_config" where
  "login_request uname pw totpCode =
     api_post ''/auth/login''
       (Some [(''username'', Some uname), (''password'', Some pw), (''totp_code'', totpCode)]) []"

definition authAPI_login ::
  "string \<Rightarrow> string \<Rightarrow> string option \<Rightarrow> login_response option adapter \<Rightarrow> 'a browser_scheme
     \<Rightarrow> (axios_error + login_response option) \<times> 'a browser_scheme" where
  "authAPI_login uname pw totpCode adapter b =
     response_data (api_request (login_request uname pw totpCode) adapter b)"

text \<open>\<^verbatim>\<open>api.get('/auth/me')\<close>\<close>

definition me_request :: request_config where
  "me_request = api_get ''/auth/me'' []"

definition authAPI_getCurrentUser ::
  "user_data adapter \<Rightarrow> 'a browser_scheme \<Rightarrow> (axios_error + user_data) \<times> 'a browser_scheme" where
  "authAPI_getCurrentUser adapter b = response_data (api_request me_request adapter b)"

definition authAPI_setup2FA ::
  "'d adapter \<Rightarrow> 'a browser_scheme \<Rightarrow> (axios_error + 'd) \<times> 'a browser_scheme" where
  "authAPI_setup2FA adapter b =
     response_data (api_request (api_post ''/auth/setup-2fa'' None []) adapter b)"

definition authAPI_enable2FA ::
  "string \<Rightarrow> 'd adapter \<Rightarrow> 'a browser_scheme \<Rightarrow> (axios_error + 'd) \<times> 'a browser_scheme" where
  "authAPI_enable2FA totpCode adapter b =
     response_data
       (api_request (api_post ''/auth/enable-2fa'' None [(''totp_code'', Some totpCode)]) adapter b)"

definition authAPI_changePassword ::
  "string \<Rightarrow> string \<Rightarrow> 'd adapter \<Rightarrow> 'a browser_scheme \<Rightarrow> (axios_error + 'd) \<times> 'a browser_scheme" where
  "authAPI_changePassword currentPassword newPassword adapter b =
     response_data
       (api_request
          (api_post ''/auth/change-password'' None
             [(''current_password'', Some currentPassword), (''new_password'', Some newPassword)])
          adapter b)"

section \<open>contexts/AuthContext: the session store\<close>

text \<open>
  The provider's React state (\<^verbatim>\<open>isAuthenticated\<close>, \<^verbatim>\<open>user\<close>,
  \<^verbatim>\<open>loading\<close>) next to the browser environment it acts on. An operation is
  modelled from its call to its return, the awaited reply included.
\<close>

record app = browser +
  isAuthenticated :: bool
  user :: "user_data option"
  loading :: bool

text \<open>\<^verbatim>\<open>useState(false)\<close>, \<^verbatim>\<open>useState(null)\<close>, \<^verbatim>\<open>useState(true)\<close>\<close>

definition AuthProvider_initial :: "browser \<Rightarrow> app" where
  "AuthProvider_initial b =
     \<lparr>localStorage = localStorage b, location_href = location_href b, effects = effects b,
      isAuthenticated = False, user = None, loading = True\<rparr>"

definition verifyToken :: "user_data adapter \<Rightarrow> app \<Rightarrow> app" where
  "verifyToken adapter s =
     (case authAPI_getCurrentUser adapter s of
        (Inr userData, s1) \<Rightarrow>
          (let s2 = s1\<lparr>user := Some userData\<rparr>;
               s3 = s2\<lparr>isAuthenticated := True\<rparr>
           in s3\<lparr>loading := False\<rparr>)
      | (Inl error, s1) \<Rightarrow>
          (let s2 = localStorage_removeItem ''authToken'' s1;
               s3 = localStorage_removeItem ''userData'' s2;
               s4 = s3\<lparr>isAuthenticated := False\<rparr>;
               s5 = s4\<lparr>user := None\<rparr>
           in s5\<lparr>loading := False\<rparr>))"

text \<open>The effect run once when the provider mounts, on application start.\<close>

definition AuthProvider_useEffect :: "user_data adapter \<Rightarrow> app \<Rightarrow> app" where
  "AuthProvider_useEffect adapter s =
     (let token = localStorage_getItem ''authToken'' s in
      if truthy token then verifyToken adapter s else s\<lparr>loading := False\<rparr>)"

text \<open>
  The object a login returns. A field the object literal does not have is \<open>None\<close>.
  \<^verbatim>\<open>mockAuth.login\<close> returns objects of the same shape, with a
  \<^verbatim>\<open>user\<close> and a \<^verbatim>\<open>token\<close> on success.
\<close>

record 'u login_result =
  success :: bool
  error :: "string option"
  requiresTOTP :: "bool option"
  result_user :: "'u option"
  token :: "string option"

text \<open>\<^verbatim>\<open>localStorage.setItem\<close> stores the string of its argument.\<close>

definition js_String :: "string option \<Rightarrow> string" where
  "js_String v = (case v of None \<Rightarrow> ''undefined'' | Some s \<Rightarrow> s)"

text \<open>\<^verbatim>\<open>error.response?.headers?.['x-require-totp']\<close> and \<^verbatim>\<open>error.response?.data?.detail\<close>\<close>

definition error_header :: "axios_error \<Rightarrow> string \<Rightarrow> string option" where
  "error_header e name =
     (case response e of None \<Rightarrow> None | Some r \<Rightarrow> response_headers r name)"

definition error_detail :: "axios_error \<Rightarrow> string option" where
  "error_detail e =
     (case response e of
        None \<Rightarrow> None
      | Some r \<Rightarrow> (case data r of None \<Rightarrow> None | Some d \<Rightarrow> detail d))"

text \<open>
  The \<^verbatim>\<open>catch\<close> block of \<^verbatim>\<open>login\<close>: it reads only
  \<^verbatim>\<open>error.response\<close>.
\<close>

definition login_catch :: "axios_error \<Rightarrow> unit login_result" where
  "login_catch e =
     (let (errorMessage, requires) =
            (if error_status e = Some 400 \<and> truthy (error_header e ''x-require-totp'')
             then (''Please enter your 2FA code'', True)
             else if truthy (error_detail e)
             then (js_String (error_detail e), False)
             else (''Authentication failed'', False))
      in \<lparr>success = False, error = Some errorMessage, requiresTOTP = Some requires,
          result_user = None, token = None\<rparr>)"

text \<open>
  \<^verbatim>\<open>JSON.stringify\<close> is the platform's; it is a parameter of the operations that
  store the profile. When the reply is fulfilled with no body, reading
  \<^verbatim>\<open>response.user\<close> throws a \<^verbatim>\<open>TypeError\<close> inside \<^verbatim>\<open>try\<close>, before
  any state is set; the \<^verbatim>\<open>catch\<close> block finds no \<^verbatim>\<open>response\<close> on it.
\<close>

definition login ::
  "(user_data \<Rightarrow> string) \<Rightarrow> login_response option adapter \<Rightarrow> string \<Rightarrow> string \<Rightarrow> string option
     \<Rightarrow> app \<Rightarrow> unit login_result \<times> app" where
  "login JSON_stringify adapter uname pw totpCode s =
     (let s0 = s\<lparr>loading := True\<rparr> in
      case authAPI_login uname pw totpCode adapter s0 of
        (Inr None, s1) \<Rightarrow> (login_catch \<lparr>response = None\<rparr>, s1\<lparr>loading := False\<rparr>)
      | (Inr (Some resp), s1) \<Rightarrow>
          (let u = (case response_user resp of
                      Some v \<Rightarrow> v
                    | None \<Rightarrow> \<lparr>username = uname, role = None, totpEnabled = None\<rparr>);
               s2 = s1\<lparr>user := Some u\<rparr>;
               s3 = s2\<lparr>isAuthenticated := True\<rparr>;
               s4 = localStorage_setItem ''authToken'' (js_String (access_token resp)) s3;
               s5 = localStorage_setItem ''userData'' (JSON_stringify u) s4
           in (\<lparr>success = True, error = None, requiresTOTP = None, result_user = None, token = None\<rparr>,
               s5\<lparr>loading := False\<rparr>))
      | (Inl e, s1) \<Rightarrow> (login_catch e, s1\<lparr>loading := False\<rparr>))"

definition logout :: "app \<Rightarrow> app" where
  "logout s =
     (let s1 = s\<lparr>isAuthenticated := False\<rparr>;
          s2 = s1\<lparr>user := None\<rparr>;
          s3 = localStorage_removeItem ''authToken'' s2;
          s4 = localStorage_removeItem ''userData'' s3
      in toast_success ''Logged out successfully'' s4)"

definition updateUser :: "(user_data \<Rightarrow> string) \<Rightarrow> user_data adapter \<Rightarrow> app \<Rightarrow> app" where
  "updateUser JSON_stringify adapter s =
     (case authAPI_getCurrentUser adapter s of
        (Inr userData, s1) \<Rightarrow>
          (let s2 = s1\<lparr>user := Some userData\<rparr>
           in localStorage_setItem ''userData'' (JSON_stringify userData) s2)
      | (Inl e, s1) \<Rightarrow> console_error ''Error updating user data:'' s1)"

text \<open>\<^verbatim>\<open>error.response?.data?.detail || fallback\<close>\<close>

definition detail_or :: "axios_error \<Rightarrow> string \<Rightarrow> string" where
  "detail_or e fallback = (if truthy (error_detail e) then js_String (error_detail e) else fallback)"

text \<open>
  The three remaining operations return \<^verbatim>\<open>{ success: true, ... }\<close> (\<open>Inr\<close>)
  or \<^verbatim>\<open>{ success: false, error }\<close> (\<open>Inl\<close> the message).
\<close>

definition changePassword :: "'d adapter \<Rightarrow> string \<Rightarrow> string \<Rightarrow> app \<Rightarrow> (string + unit) \<times> app" where
  "changePassword adapter currentPassword newPassword s =
     (case authAPI_changePassword currentPassword newPassword adapter s of
        (Inr _, s1) \<Rightarrow> (Inr (), toast_success ''Password changed successfully'' s1)
      | (Inl e, s1) \<Rightarrow>
          (let errorMessage = detail_or e ''Failed to change password''
           in (Inl errorMessage, toast_error errorMessage s1)))"

definition setup2FA :: "'d adapter \<Rightarrow> app \<Rightarrow> (string + 'd) \<times> app" where
  "setup2FA adapter s =
     (case authAPI_setup2FA adapter s of
        (Inr resp, s1) \<Rightarrow> (Inr resp, s1)
      | (Inl e, s1) \<Rightarrow>
          (let errorMessage = detail_or e ''Failed to setup 2FA''
           in (Inl errorMessage, toast_error errorMessage s1)))"

definition enable2FA ::
  "(user_data \<Rightarrow> string) \<Rightarrow> 'd adapter \<Rightarrow> user_data adapter \<Rightarrow> string \<Rightarrow> app \<Rightarrow> (string + unit) \<times> app" where
  "enable2FA JSON_stringify adapter me_adapter totpCode s =
     (case authAPI_enable2FA totpCode adapter s of
        (Inr _, s1) \<Rightarrow>
          (let s2 = updateUser JSON_stringify me_adapter s1
           in (Inr (), toast_success ''Two-factor authentication enabled'' s2))
      | (Inl e, s1) \<Rightarrow>
          (let errorMessage = detail_or e ''Failed to enable 2FA''
           in (Inl errorMessage, toast_error errorMessage s1)))"

text \<open>
  Every operation of the program that acts on the persisted state: a call of any
  wrapper of the API client, and the operations of the session store. Each carries the
  replies of the backend it awaits.
\<close>

datatype operation =
    ApiCall request_config "unit adapter"
  | AppStart "user_data adapter"
  | Login "login_response option adapter" string string "string option"
  | Logout
  | UpdateUser "user_data adapter"
  | ChangePassword "unit adapter" string string
  | Setup2FA "unit adapter"
  | Enable2FA "unit adapter" "user_data adapter" string

fun perform :: "(user_data \<Rightarrow> string) \<Rightarrow> operation \<Rightarrow> app \<Rightarrow> app" where
  "perform JSON_stringify (ApiCall config adapter) s = snd (api_request config adapter s)"
| "perform JSON_stringify (AppStart adapter) s = AuthProvider_useEffect adapter s"
| "perform JSON_stringify (Login adapter uname pw totpCode) s =
     snd (login JSON_stringify adapter uname pw totpCode s)"
| "perform JSON_stringify Logout s = logout s"
| "perform JSON_stringify (UpdateUser adapter) s = updateUser JSON_stringify adapter s"
| "perform JSON_stringify (ChangePassword adapter currentPassword newPassword) s =
     snd (changePassword adapter currentPassword newPassword s)"
| "perform JSON_stringify (Setup2FA adapter) s = snd (setup2FA adapter s)"
| "perform JSON_stringify (Enable2FA adapter me_adapter totpCode) s =
     snd (enable2FA JSON_stringify adapter me_adapter totpCode s)"

text \<open>What an operation added to the trace, and the keys it removed and wrote.\<close>

definition new_effects :: "'a browser_scheme \<Rightarrow> 'a browser_scheme \<Rightarrow> effect list" where
  "new_effects s s' = drop (length (effects s)) (effects s')"

fun removed_keys :: "effect list \<Rightarrow> string list" where
  "removed_keys [] = []"
| "removed_keys (RemoveItem k # es) = k # removed_keys es"
| "removed_keys (_ # es) = removed_keys es"

fun written_keys :: "effect list \<Rightarrow> string list" where
  "written_keys [] = []"
| "written_keys (SetItem k v # es) = k # written_keys es"
| "written_keys (_ # es) = written_keys es"

section \<open>utils/mockData: the mock authentication\<close>

record mock_user =
  user_id :: nat
  username :: string
  password :: "string option"
  role :: string
  email :: string
  lastLogin :: string
  totpEnabled :: bool

text \<open>
  \<^verbatim>\<open>mockAuth.users\<close>; \<^verbatim>\<open>lastLogin\<close> is the time the module was loaded.
\<close>

definition mockAuth_users :: "string \<Rightarrow> mock_user list" where
  "mockAuth_users loaded =
     [\<lparr>user_id = 1, username = ''admin'', password = Some ''admin123'',
       role = ''administrator'', email = ''admin@rdpstealth.com'', lastLogin = loaded,
       totpEnabled = True\<rparr>]"

text \<open>The decimal string of a number, as \<^verbatim>\<open>'mock_jwt_token_' + Date.now()\<close> makes it.\<close>

fun string_of_nat :: "nat \<Rightarrow> string" where
  "string_of_nat n =
     (if n < 10 then [''0123456789'' ! n]
      else string_of_nat (n div 10) @ [''0123456789'' ! (n mod 10)])"

text \<open>
  \<^verbatim>\<open>mockAuth.login\<close>, with the user list and the clock as parameters. The result's
  user is \<^verbatim>\<open>{ ...user, password: undefined }\<close>.
\<close>

definition mockAuth_login ::
  "mock_user list \<Rightarrow> nat \<Rightarrow> string \<Rightarrow> string \<Rightarrow> string option \<Rightarrow> mock_user login_result" where
  "mockAuth_login users now uname pw totpCode =
     (case find (\<lambda>u. username u = uname) users of
        None \<Rightarrow>
          \<lparr>success = False, error = Some ''Invalid credentials'', requiresTOTP = None,
           result_user = None, token = None\<rparr>
      | Some u \<Rightarrow>
          if password u \<noteq> Some pw
          then \<lparr>success = False, error = Some ''Invalid credentials'', requiresTOTP = None,
                result_user = None, token = None\<rparr>
          else if totpEnabled u \<and> \<not> truthy totpCode
          then \<lparr>success = False, error = None, requiresTOTP = Some True,
                result_user = None, token = None\<rparr>
          else if totpEnabled u \<and> totpCode \<noteq> Some ''123456''
          then \<lparr>success = False, error = Some ''Invalid TOTP code'', requiresTOTP = None,
                result_user = None, token = None\<rparr>
          else \<lparr>success = True, error = None, requiresTOTP = None,
                result_user = Some (u\<lparr>password := None\<rparr>),
                token = Some (''mock_jwt_token_'' @ string_of_nat now)\<rparr>)"


section \<open>View components: polling timers\<close>

text \<open>
  The page's interval timers: \<^verbatim>\<open>setInterval\<close> hands out a fresh identifier and
  registers the timer with its delay, \<^verbatim>\<open>clearInterval\<close> removes it.
\<close>

record timers =
  next_id :: nat
  active :: "nat \<rightharpoonup> nat"

definition setInterval :: "nat \<Rightarrow> timers \<Rightarrow> nat \<times> timers" where
  "setInterval delay t =
     (next_id t, t\<lparr>next_id := Suc (next_id t), active := (active t)(next_id t \<mapsto> delay)\<rparr>)"

definition clearInterval :: "nat \<Rightarrow> timers \<Rightarrow> timers" where
  "clearInterval i t = t\<lparr>active := (active t)(i := None)\<rparr>"

text \<open>
  An effect of a component starts what it starts and returns its cleanup, if any. React
  runs the effect when the component is shown and whenever a dependency changed, after
  the cleanup of the previous run; it runs the last cleanup when the component is hidden.
\<close>

type_synonym cleanup = "(timers \<Rightarrow> timers) option"

definition run_cleanup :: "cleanup \<Rightarrow> timers \<Rightarrow> timers" where
  "run_cleanup c t = (case c of None \<Rightarrow> t | Some f \<Rightarrow> f t)"

text \<open>Dashboard: \<^verbatim>\<open>setInterval(() => loadDashboardData(), 30000)\<close>, dependencies \<^verbatim>\<open>[]\<close>.\<close>

definition Dashboard_effect :: "timers \<Rightarrow> cleanup \<times> timers" where
  "Dashboard_effect t =
     (let (interval, t1) = setInterval 30000 t in (Some (clearInterval interval), t1))"

text \<open>SessionMonitor: the bandwidth update every 2000 ms, dependencies \<^verbatim>\<open>[]\<close>.\<close>

definition SessionMonitor_effect :: "timers \<Rightarrow> cleanup \<times> timers" where
  "SessionMonitor_effect t =
     (let (interval, t1) = setInterval 2000 t in (Some (clearInterval interval), t1))"

text \<open>
  LogsViewer: \<^verbatim>\<open>if (!isAutoRefresh) return\<close>, else a new log line every 5000 ms;
  dependencies \<^verbatim>\<open>[isAutoRefresh]\<close>.
\<close>

definition LogsViewer_effect :: "bool \<Rightarrow> timers \<Rightarrow> cleanup \<times> timers" where
  "LogsViewer_effect isAutoRefresh t =
     (if \<not> isAutoRefresh then (None, t)
      else (let (interval, t1) = setInterval 5000 t in (Some (clearInterval interval), t1)))"

text \<open>
  What happens to a view while it is shown: a timer fires (its callback updates the
  view's data and starts no timer), or the user presses the pause/resume button of the
  log viewer (\<^verbatim>\<open>setIsAutoRefresh(!isAutoRefresh)\<close>).
\<close>

datatype view_event = Tick | ToggleAutoRefresh

datatype view_component = Dashboard | SessionMonitor | LogsViewer

text \<open>
  A shown view holds the cleanup of its effect's last run; the log viewer also holds its
  \<^verbatim>\<open>isAutoRefresh\<close> state, initially \<^verbatim>\<open>true\<close>.
\<close>

datatype view =
    DashboardView cleanup
  | SessionMonitorView cleanup
  | LogsViewerView bool cleanup

fun show_view :: "view_component \<Rightarrow> timers \<Rightarrow> view \<times> timers" where
  "show_view Dashboard t = (let (cl, t1) = Dashboard_effect t in (DashboardView cl, t1))"
| "show_view SessionMonitor t =
     (let (cl, t1) = SessionMonitor_effect t in (SessionMonitorView cl, t1))"
| "show_view LogsViewer t =
     (let (cl, t1) = LogsViewer_effect True t in (LogsViewerView True cl, t1))"

fun view_step :: "view_event \<Rightarrow> view \<times> timers \<Rightarrow> view \<times> timers" where
  "view_step ToggleAutoRefresh (LogsViewerView isAutoRefresh cl, t) =
     (let t1 = run_cleanup cl t;
          (cl', t2) = LogsViewer_effect (\<not> isAutoRefresh) t1
      in (LogsViewerView (\<not> isAutoRefresh) cl', t2))"
| "view_step ev vt = vt"

fun pending_cleanup :: "view \<Rightarrow> cleanup" where
  "pending_cleanup (DashboardView cl) = cl"
| "pending_cleanup (SessionMonitorView cl) = cl"
| "pending_cleanup (LogsViewerView isAutoRefresh cl) = cl"

definition hide_view :: "view \<times> timers \<Rightarrow> timers" where
  "hide_view vt = (case vt of (v, t) \<Rightarrow> run_cleanup (pending_cleanup v) t)"

text \<open>A view from the moment it is shown to the moment it is hidden.\<close>

definition view_visit :: "view_component \<Rightarrow> view_event list \<Rightarrow> timers \<Rightarrow> timers" where
  "view_visit c evs t = hide_view (foldl (\<lambda>vt ev. view_step ev vt) (show_view c t) evs)"

section \<open>Concrete environments used to run the model\<close>

definition stored_session :: browser where
  "stored_session =
     \<lparr>localStorage = [''authToken'' \<mapsto> ''abc'', ''userData'' \<mapsto> ''{}''],
      location_href = ''/'', effects = []\<rparr>"

definition fresh_browser :: browser where
  "fresh_browser = \<lparr>localStorage = Map.empty, location_href = ''/login'', effects = []\<rparr>"

definition unauthorized :: axios_error where
  "unauthorized = \<lparr>response = Some \<lparr>status = 401, response_headers = Map.empty, data = None\<rparr>\<rparr>"

definition network_failure :: axios_error where
  "network_failure = \<lparr>response = None\<rparr>"

definition totp_required :: axios_error where
  "totp_required =
     \<lparr>response = Some \<lparr>status = 400, response_headers = [''x-require-totp'' \<mapsto> ''true''],
                        data = Some \<lparr>detail = Some ''TOTP code required''\<rparr>\<rparr>\<rparr>"

definition invalid_credentials :: axios_error where
  "invalid_credentials =
     \<lparr>response = Some \<lparr>status = 401, response_headers = Map.empty,
                        data = Some \<lparr>detail = Some ''Invalid credentials''\<rparr>\<rparr>\<rparr>"


text \<open>
  A backend that answers a \<^verbatim>\<open>POST /auth/login\<close> by what its body carries: the
  account \<open>admin\<close> with \<open>admin123\<close> is asked for the code when none is sent, is given
  a token with the code \<open>123456\<close>, and everything else is refused.
\<close>

definition posts_login :: "request_config \<Rightarrow> string \<Rightarrow> string \<Rightarrow> string option \<Rightarrow> bool" where
  "posts_login config uname pw totpCode =
     (http_method config = ''post'' \<and> url config = ''/auth/login'' \<and>
      body config =
        Some [(''username'', Some uname), (''password'', Some pw), (''totp_code'', totpCode)])"

definition scenario_backend :: "login_response option adapter" where
  "scenario_backend config =
     (if posts_login config ''admin'' ''admin123'' (Some ''123456'')
      then Inr \<lparr>status = 200, response_headers = Map.empty,
                data = Some \<lparr>response_user =
                               Some \<lparr>user_data.username = ''admin'', role = Some ''administrator'',
                                     totpEnabled = Some True\<rparr>,
                             access_token = Some ''token-1''\<rparr>\<rparr>
      else if posts_login config ''admin'' ''admin123'' None
      then Inl totp_required
      else Inl invalid_credentials)"

text \<open>A stand-in for \<^verbatim>\<open>JSON.stringify\<close> on the concrete runs.\<close>

definition stringify_username :: "user_data \<Rightarrow> string" where
  "stringify_username u = ''{username:'' @ user_data.username u @ ''}''"

definition app_with_theme :: app where
  "app_with_theme =
     \<lparr>localStorage = [''authToken'' \<mapsto> ''abc'', ''userData'' \<mapsto> ''{}'', ''theme'' \<mapsto> ''dark''],
      location_href = ''/'', effects = [],
      isAuthenticated = True, user = Some \<lparr>user_data.username = ''admin'', role = None, totpEnabled = None\<rparr>,
      loading = False\<rparr>"

definition no_timers :: timers where
  "no_timers = \<lparr>next_id = 1, active = Map.empty\<rparr>"

section \<open>An invariant of a visit to a view\<close>

text \<open>
  Between showing a view on the timers \<open>t\<close> and hiding it: identifiers have been handed
  out, timers outside the range handed out are as they were, and of the timers in that
  range only the one the pending cleanup clears can be active.
\<close>

definition visit_inv :: "timers \<Rightarrow> view \<times> timers \<Rightarrow> bool" where
  "visit_inv t vt =
     (case vt of (v, t') \<Rightarrow>
        next_id t < next_id t' \<and>
        (\<forall>i. i < next_id t \<or> next_id t' \<le> i \<longrightarrow> active t' i = active t i) \<and>
        (case pending_cleanup v of
           None \<Rightarrow> (\<forall>i. next_id t \<le> i \<and> i < next_id t' \<longrightarrow> active t' i = None)
         | Some f \<Rightarrow>
             (\<exists>j. next_id t \<le> j \<and> j < next_id t' \<and> f = clearInterval j \<and>
                  (\<forall>i. next_id t \<le> i \<and> i < next_id t' \<and> i \<noteq> j \<longrightarrow> active t' i = None))))"

section \<open>The response interceptor\<close>

lemma response_rejected_401:
  assumes "error_status e = Some 401"
  shows "localStorage (response_rejected e b) =
           (localStorage b)(''authToken'' := None, ''userData'' := None)"
    and "location_href (response_rejected e b) = ''/login''"
    and "effects (response_rejected e b) =
           effects b @ [RemoveItem ''authToken'', RemoveItem ''userData'', AssignHref ''/login'']"
  using assms
  by (simp_all add: response_rejected_def localStorage_removeItem_def assign_location_href_def Let_def)

lemma settle_rejections_401:
  "\<forall>e\<in>set es. error_status e = Some 401 \<Longrightarrow> es \<noteq> [] \<Longrightarrow>
   localStorage (settle_rejections es b) =
     (localStorage b)(''authToken'' := None, ''userData'' := None) \<and>
   location_href (settle_rejections es b) = ''/login'' \<and>
   effects (settle_rejections es b) =
     effects b @
       concat (replicate (length es)
         [RemoveItem ''authToken'', RemoveItem ''userData'', AssignHref ''/login''])"
proof (induction es arbitrary: b)
  case Nil
  then show ?case by simp
next
  case (Cons e es)
  have e: "error_status e = Some 401" using Cons.prems by simp
  show ?case
  proof (cases "es = []")
    case True
    then show ?thesis by (simp add: response_rejected_401 [OF e] fun_eq_iff)
  next
    case False
    have "\<forall>x\<in>set es. error_status x = Some 401" using Cons.prems by simp
    from Cons.IH [OF this False, of "response_rejected e b"]
    show ?thesis by (simp add: response_rejected_401 [OF e] fun_eq_iff)
  qed
qed

lemma count_list_concat_replicate:
  "count_list (concat (replicate n xs)) x = n * count_list xs x"
  by (induction n) simp_all

text \<open>
  Claim C1, as amended. Whatever the request, a call whose reply is a rejection with
  status 401 is rejected with that same error, and the response interceptor has removed
  both \<open>authToken\<close> and \<open>userData\<close> from local storage and assigned \<open>/login\<close> to the
  location. When several calls are rejected with 401, the interceptor handles every one
  of them: the resulting storage and location are those after the first, and both
  removals and the assignment of \<open>/login\<close> have been made once per rejected call.
\<close>

theorem api_401_clears_session_and_redirects:
  "(adapter (request_interceptor config b) = Inl e \<and> error_status e = Some 401 \<longrightarrow>
      fst (api_request config adapter b) = Inl e \<and>
      localStorage (snd (api_request config adapter b)) ''authToken'' = None \<and>
      localStorage (snd (api_request config adapter b)) ''userData'' = None \<and>
      location_href (snd (api_request config adapter b)) = ''/login'')
   \<and> ((\<forall>x\<in>set es. error_status x = Some 401) \<and> es \<noteq> [] \<longrightarrow>
      localStorage (settle_rejections es b) = localStorage (response_rejected (hd es) b) \<and>
      location_href (settle_rejections es b) = ''/login'' \<and>
      count_list (new_effects b (settle_rejections es b)) (AssignHref ''/login'') = length es \<and>
      count_list (new_effects b (settle_rejections es b)) (RemoveItem ''authToken'') = length es \<and>
      count_list (new_effects b (settle_rejections es b)) (RemoveItem ''userData'') = length es)"
proof (intro conjI impI)
  assume a: "adapter (request_interceptor config b) = Inl e \<and> error_status e = Some 401"
  then have r: "api_request config adapter b = (Inl e, response_rejected e b)"
    by (simp add: api_request_def api_settle_def)
  show "fst (api_request config adapter b) = Inl e" using r by simp
  show "localStorage (snd (api_request config adapter b)) ''authToken'' = None"
    using r a by (simp add: response_rejected_401)
  show "localStorage (snd (api_request config adapter b)) ''userData'' = None"
    using r a by (simp add: response_rejected_401)
  show "location_href (snd (api_request config adapter b)) = ''/login''"
    using r a by (simp add: response_rejected_401)
next
  assume a: "(\<forall>x\<in>set es. error_status x = Some 401) \<and> es \<noteq> []"
  then have s: "localStorage (settle_rejections es b) =
       (localStorage b)(''authToken'' := None, ''userData'' := None)"
     "location_href (settle_rejections es b) = ''/login''"
     "effects (settle_rejections es b) =
       effects b @
         concat (replicate (length es)
           [RemoveItem ''authToken'', RemoveItem ''userData'', AssignHref ''/login''])"
    using settle_rejections_401 [of es b] by simp_all
  have h: "error_status (hd es) = Some 401" using a by (cases es) simp_all
  show "localStorage (settle_rejections es b) = localStorage (response_rejected (hd es) b)"
    by (simp add: s response_rejected_401 [OF h])
  show "location_href (settle_rejections es b) = ''/login''" by (simp add: s)
  show "count_list (new_effects b (settle_rejections es b)) (AssignHref ''/login'') = length es"
    by (simp add: s new_effects_def count_list_concat_replicate)
  show "count_list (new_effects b (settle_rejections es b)) (RemoveItem ''authToken'') = length es"
    by (simp add: s new_effects_def count_list_concat_replicate)
  show "count_list (new_effects b (settle_rejections es b)) (RemoveItem ''userData'') = length es"
    by (simp add: s new_effects_def count_list_concat_replicate)
qed

text \<open>
  The theorem at a stored session: one call to \<open>/dashboard/stats\<close> rejected with 401,
  and two rejections arriving one after the other.
\<close>

theorem api_401_clears_session_and_redirects_witness:
  "fst (api_request (api_get ''/dashboard/stats'' []) (\<lambda>c. Inl unauthorized :: unit reply)
          stored_session) = Inl unauthorized \<and>
   localStorage (snd (api_request (api_get ''/dashboard/stats'' [])
          (\<lambda>c. Inl unauthorized :: unit reply) stored_session)) ''authToken'' = None \<and>
   localStorage (snd (api_request (api_get ''/dashboard/stats'' [])
          (\<lambda>c. Inl unauthorized :: unit reply) stored_session)) ''userData'' = None \<and>
   location_href (snd (api_request (api_get ''/dashboard/stats'' [])
          (\<lambda>c. Inl unauthorized :: unit reply) stored_session)) = ''/login'' \<and>
   location_href (settle_rejections [unauthorized, unauthorized] stored_session) = ''/login'' \<and>
   count_list (new_effects stored_session
          (settle_rejections [unauthorized, unauthorized] stored_session))
      (AssignHref ''/login'') = 2"
  using api_401_clears_session_and_redirects
    [of "\<lambda>c. Inl unauthorized :: unit reply" "api_get ''/dashboard/stats'' []" stored_session
        unauthorized "[unauthorized, unauthorized]"]
  by (simp add: unauthorized_def error_status_def)

text \<open>
  Claim C1 as stated fails where it says "exactly once": with three calls in flight
  that are all rejected with 401, the session keys are removed three times and
  \<open>/login\<close> is assigned three times.
\<close>

theorem three_401_replies_redirect_three_times:
  "count_list (new_effects stored_session
       (settle_rejections [unauthorized, unauthorized, unauthorized] stored_session))
     (AssignHref ''/login'') = 3
   \<and> count_list (new_effects stored_session
       (settle_rejections [unauthorized, unauthorized, unauthorized] stored_session))
     (RemoveItem ''authToken'') = 3"
  by (simp add: stored_session_def unauthorized_def new_effects_def response_rejected_def
      error_status_def localStorage_removeItem_def assign_location_href_def Let_def)

section \<open>The request interceptor\<close>

text \<open>
  Claim C6, as amended. The request that leaves the client is the one the request
  interceptor made. When local storage holds a non-empty \<open>authToken\<close>, that request is
  the caller's with its \<open>Authorization\<close> header set to \<open>Bearer\<close>, a space and the
  token; when the key is absent or holds the empty string, the request is the caller's,
  unchanged, and gets no \<open>Authorization\<close> header from the client.
\<close>

theorem request_carries_bearer_token_when_stored:
  "(localStorage b ''authToken'' = Some t \<and> t \<noteq> [] \<longrightarrow>
      request_interceptor config b =
        config\<lparr>request_config.headers :=
          (request_config.headers config)(''Authorization'' \<mapsto> ''Bearer '' @ t)\<rparr>)
   \<and> (localStorage b ''authToken'' = None \<or> localStorage b ''authToken'' = Some [] \<longrightarrow>
      request_interceptor config b = config)
   \<and> api_request config adapter b = api_settle (adapter (request_interceptor config b)) b"
  by (auto simp add: request_interceptor_def localStorage_getItem_def truthy_def api_request_def)

theorem request_carries_bearer_token_when_stored_witness:
  "request_config.headers (request_interceptor (api_get ''/auth/me'' []) stored_session)
      ''Authorization'' = Some ''Bearer abc''
   \<and> request_interceptor (api_post ''/auth/login'' None []) fresh_browser
      = api_post ''/auth/login'' None []"
  using request_carries_bearer_token_when_stored
          [of stored_session "''abc''" "api_get ''/auth/me'' []"
              "\<lambda>c. Inl network_failure :: unit reply"]
        request_carries_bearer_token_when_stored
          [of fresh_browser "''abc''" "api_post ''/auth/login'' None []"
              "\<lambda>c. Inl network_failure :: unit reply"]
  by (simp add: stored_session_def fresh_browser_def)

text \<open>
  Claim C6 as stated fails for a request made while no token is stored, such as the
  login request itself: it leaves without an \<open>Authorization\<close> header.
\<close>

theorem login_request_has_no_authorization_header:
  "request_config.headers
     (request_interceptor
        (api_post ''/auth/login''
           (Some [(''username'', Some ''admin''), (''password'', Some ''admin123''),
                  (''totp_code'', None)]) [])
        fresh_browser)
     ''Authorization'' = None"
  by (simp add: request_interceptor_def api_post_def api_default_headers_def
      localStorage_getItem_def fresh_browser_def)

section \<open>Login\<close>

lemma request_interceptor_loading:
  "request_interceptor config (s\<lparr>loading := x\<rparr>) = request_interceptor config s"
  by (simp add: request_interceptor_def localStorage_getItem_def)

lemma login_catch_result:
  "login_catch e =
     \<lparr>success = False,
      error = Some (if error_status e = Some 400 \<and> truthy (error_header e ''x-require-totp'')
                    then ''Please enter your 2FA code''
                    else if truthy (error_detail e) then js_String (error_detail e)
                    else ''Authentication failed''),
      requiresTOTP = Some (error_status e = Some 400 \<and> truthy (error_header e ''x-require-totp'')),
      result_user = None, token = None\<rparr>"
  by (simp add: login_catch_def)

lemma login_rejected:
  assumes "adapter (request_interceptor (login_request uname pw totpCode) s) = Inl e"
  shows "login J adapter uname pw totpCode s =
     (login_catch e, (response_rejected e (s\<lparr>loading := True\<rparr>))\<lparr>loading := False\<rparr>)"
  using assms
  by (simp add: login_def authAPI_login_def response_data_def api_request_def api_settle_def
      request_interceptor_loading Let_def)




text \<open>
  Claim C2, as amended. In the session store the backend's answer decides: when it
  rejects the login request with status 400 and the \<open>x-require-totp\<close> header, \<open>login\<close>
  returns the result with \<open>requiresTOTP\<close> true (whatever code was passed, so also when
  none was), and the authenticated flag, the user and local storage are what they
  were: no session is established and no token is stored; any other rejection gives a
  result with \<open>requiresTOTP\<close> false. In the mock, a user found by name whose password
  matches and who has \<open>totpEnabled\<close> gets the result \<open>{success: false, requiresTOTP: true}\<close>
  when the code is null or empty; when the password does not match, the result is the
  generic failure \<open>Invalid credentials\<close>, also for a user with \<open>totpEnabled\<close> and no code.
\<close>

theorem login_without_code_requires_second_factor:
  "(adapter (request_interceptor (login_request uname pw totpCode) s) = Inl e \<and>
    error_status e = Some 400 \<and> truthy (error_header e ''x-require-totp'') \<longrightarrow>
      fst (login J adapter uname pw totpCode s) =
        \<lparr>success = False, error = Some ''Please enter your 2FA code'', requiresTOTP = Some True,
         result_user = None, token = None\<rparr> \<and>
      isAuthenticated (snd (login J adapter uname pw totpCode s)) = isAuthenticated s \<and>
      user (snd (login J adapter uname pw totpCode s)) = user s \<and>
      localStorage (snd (login J adapter uname pw totpCode s)) = localStorage s)
   \<and> (adapter (request_interceptor (login_request uname pw totpCode) s) = Inl e \<and>
      \<not> (error_status e = Some 400 \<and> truthy (error_header e ''x-require-totp'')) \<longrightarrow>
      success (fst (login J adapter uname pw totpCode s)) = False \<and>
      requiresTOTP (fst (login J adapter uname pw totpCode s)) = Some False)
   \<and> (find (\<lambda>u. username u = uname) users = Some u \<and> password u = Some pw \<and>
      totpEnabled u \<and> \<not> truthy totpCode \<longrightarrow>
      mockAuth_login users now uname pw totpCode =
        \<lparr>success = False, error = None, requiresTOTP = Some True,
         result_user = None, token = None\<rparr>)
   \<and> (find (\<lambda>u. username u = uname) users = Some u \<and> password u \<noteq> Some pw \<longrightarrow>
      mockAuth_login users now uname pw totpCode =
        \<lparr>success = False, error = Some ''Invalid credentials'', requiresTOTP = None,
         result_user = None, token = None\<rparr>)"
proof (intro conjI impI)
  assume a: "adapter (request_interceptor (login_request uname pw totpCode) s) = Inl e \<and>
    error_status e = Some 400 \<and> truthy (error_header e ''x-require-totp'')"
  then have r: "adapter (request_interceptor (login_request uname pw totpCode) s) = Inl e"
    by simp
  have n: "response_rejected e (s\<lparr>loading := True\<rparr>) = s\<lparr>loading := True\<rparr>"
    using a by (simp add: response_rejected_def)
  note l = login_rejected [of adapter uname pw totpCode s e J, OF r]
  show "fst (login J adapter uname pw totpCode s) =
        \<lparr>success = False, error = Some ''Please enter your 2FA code'', requiresTOTP = Some True,
         result_user = None, token = None\<rparr>"
    using a by (simp add: l login_catch_result)
  show "isAuthenticated (snd (login J adapter uname pw totpCode s)) = isAuthenticated s"
    by (simp add: l n)
  show "user (snd (login J adapter uname pw totpCode s)) = user s"
    by (simp add: l n)
  show "localStorage (snd (login J adapter uname pw totpCode s)) = localStorage s"
    by (simp add: l n)
next
  assume a: "adapter (request_interceptor (login_request uname pw totpCode) s) = Inl e \<and>
      \<not> (error_status e = Some 400 \<and> truthy (error_header e ''x-require-totp''))"
  then have r: "adapter (request_interceptor (login_request uname pw totpCode) s) = Inl e"
    by simp
  note l = login_rejected [of adapter uname pw totpCode s e J, OF r]
  show "success (fst (login J adapter uname pw totpCode s)) = False"
    by (simp add: l login_catch_result)
  show "requiresTOTP (fst (login J adapter uname pw totpCode s)) = Some False"
    using a by (simp add: l login_catch_result)
next
  assume "find (\<lambda>u. username u = uname) users = Some u \<and> password u = Some pw \<and>
      totpEnabled u \<and> \<not> truthy totpCode"
  then show "mockAuth_login users now uname pw totpCode =
        \<lparr>success = False, error = None, requiresTOTP = Some True,
         result_user = None, token = None\<rparr>"
    by (simp add: mockAuth_login_def)
next
  assume "find (\<lambda>u. username u = uname) users = Some u \<and> password u \<noteq> Some pw"
  then show "mockAuth_login users now uname pw totpCode =
        \<lparr>success = False, error = Some ''Invalid credentials'', requiresTOTP = None,
         result_user = None, token = None\<rparr>"
    by (simp add: mockAuth_login_def)
qed

text \<open>
  The theorem at the login page's first attempt, no session yet, against a backend that
  reads the body of the request: \<open>admin\<close> with \<open>admin123\<close> and no code is asked for the
  code, with \<open>wrongpass\<close> it is refused; and at the mock's user \<open>admin\<close>.
\<close>

theorem login_without_code_requires_second_factor_witness:
  "fst (login stringify_username scenario_backend ''admin'' ''admin123'' None
          (AuthProvider_initial fresh_browser)) =
     \<lparr>success = False, error = Some ''Please enter your 2FA code'', requiresTOTP = Some True,
      result_user = None, token = None\<rparr> \<and>
   isAuthenticated (snd (login stringify_username scenario_backend ''admin'' ''admin123''
          None (AuthProvider_initial fresh_browser))) = False \<and>
   localStorage (snd (login stringify_username scenario_backend ''admin'' ''admin123''
          None (AuthProvider_initial fresh_browser))) ''authToken'' = None \<and>
   requiresTOTP (fst (login stringify_username scenario_backend ''admin'' ''wrongpass'' None
          (AuthProvider_initial fresh_browser))) = Some False \<and>
   mockAuth_login (mockAuth_users ''2025-01-01T00:00:00.000Z'') 1700000000000
       ''admin'' ''admin123'' None =
     \<lparr>success = False, error = None, requiresTOTP = Some True, result_user = None, token = None\<rparr> \<and>
   mockAuth_login (mockAuth_users ''2025-01-01T00:00:00.000Z'') 1700000000000
       ''admin'' ''letmein'' (Some '''') =
     \<lparr>success = False, error = Some ''Invalid credentials'', requiresTOTP = None,
      result_user = None, token = None\<rparr>"
  using login_without_code_requires_second_factor
    [of scenario_backend "''admin''" "''admin123''" None
        "AuthProvider_initial fresh_browser" totp_required stringify_username
        "mockAuth_users ''2025-01-01T00:00:00.000Z''"
        "hd (mockAuth_users ''2025-01-01T00:00:00.000Z'')" 1700000000000]
    login_without_code_requires_second_factor
    [of scenario_backend "''admin''" "''wrongpass''" None
        "AuthProvider_initial fresh_browser" invalid_credentials stringify_username
        "mockAuth_users ''2025-01-01T00:00:00.000Z''"
        "hd (mockAuth_users ''2025-01-01T00:00:00.000Z'')" 1700000000000]
    login_without_code_requires_second_factor
    [of scenario_backend "''admin''" "''letmein''" "Some ''''"
        "AuthProvider_initial fresh_browser" invalid_credentials stringify_username
        "mockAuth_users ''2025-01-01T00:00:00.000Z''"
        "hd (mockAuth_users ''2025-01-01T00:00:00.000Z'')" 1700000000000]
  by (simp add: scenario_backend_def posts_login_def login_request_def api_post_def
      request_interceptor_def localStorage_getItem_def totp_required_def invalid_credentials_def
      error_status_def error_header_def truthy_def mockAuth_users_def AuthProvider_initial_def
      fresh_browser_def)

text \<open>
  Claim C2 as stated fails for an attempt with a wrong password: \<open>admin\<close> requires a
  second factor and no code is supplied, yet the mock answers with the generic failure
  \<open>Invalid credentials\<close> and not with the request for the second factor.
\<close>

theorem wrong_password_without_code_gets_generic_failure:
  "totpEnabled (hd (mockAuth_users ''2025-01-01T00:00:00.000Z''))
   \<and> requiresTOTP (mockAuth_login (mockAuth_users ''2025-01-01T00:00:00.000Z'') 1700000000000
        ''admin'' ''wrongpass'' None) = None
   \<and> error (mockAuth_login (mockAuth_users ''2025-01-01T00:00:00.000Z'') 1700000000000
        ''admin'' ''wrongpass'' None) = Some ''Invalid credentials''"
  by (simp add: mockAuth_login_def mockAuth_users_def)




section \<open>Logout\<close>

text \<open>
  Claim C4. \<open>logout\<close> is a total operation without an error result. After it both
  \<open>authToken\<close> and \<open>userData\<close> are absent from local storage, the authenticated flag is
  false and the user is null. A second logout leaves local storage and the in-memory
  state (authenticated flag, user, loading flag, as well as the location) as the first
  left them.
\<close>

theorem logout_clears_session_and_is_idempotent:
  "localStorage (logout s) ''authToken'' = None \<and>
   localStorage (logout s) ''userData'' = None \<and>
   \<not> isAuthenticated (logout s) \<and>
   user (logout s) = None \<and>
   localStorage (logout (logout s)) = localStorage (logout s) \<and>
   isAuthenticated (logout (logout s)) = isAuthenticated (logout s) \<and>
   user (logout (logout s)) = user (logout s) \<and>
   loading (logout (logout s)) = loading (logout s) \<and>
   location_href (logout (logout s)) = location_href (logout s)"
  by (simp add: logout_def localStorage_removeItem_def toast_success_def Let_def fun_eq_iff)

section \<open>Application start\<close>

lemma verifyToken_rejected:
  assumes "adapter (request_interceptor me_request s) = Inl e"
  shows "localStorage (verifyToken adapter s) ''authToken'' = None"
    and "localStorage (verifyToken adapter s) ''userData'' = None"
    and "\<not> isAuthenticated (verifyToken adapter s)"
    and "user (verifyToken adapter s) = None"
    and "\<not> loading (verifyToken adapter s)"
  using assms
  by (simp_all add: verifyToken_def authAPI_getCurrentUser_def response_data_def api_request_def
      api_settle_def localStorage_removeItem_def Let_def)

text \<open>
  Claim C8. On application start with a token in storage (a non-empty string, which is
  what the code takes for a token), if the request for the profile is rejected with any
  error at all, a network failure as well as any status, then afterwards both keys are
  absent from local storage, the authenticated flag is false, the user is null and
  loading has ended. Hence, if the token is still stored after the start, the request
  was fulfilled.
\<close>

theorem failed_verification_clears_session:
  "(truthy (localStorage s ''authToken'') \<and>
    adapter (request_interceptor me_request s) = Inl e \<longrightarrow>
      localStorage (AuthProvider_useEffect adapter s) ''authToken'' = None \<and>
      localStorage (AuthProvider_useEffect adapter s) ''userData'' = None \<and>
      \<not> isAuthenticated (AuthProvider_useEffect adapter s) \<and>
      user (AuthProvider_useEffect adapter s) = None \<and>
      \<not> loading (AuthProvider_useEffect adapter s))
   \<and> (truthy (localStorage s ''authToken'') \<and>
      localStorage (AuthProvider_useEffect adapter s) ''authToken'' \<noteq> None \<longrightarrow>
      (\<exists>r. adapter (request_interceptor me_request s) = Inr r))"
proof (intro conjI impI)
  assume a: "truthy (localStorage s ''authToken'') \<and>
    adapter (request_interceptor me_request s) = Inl e"
  then have u: "AuthProvider_useEffect adapter s = verifyToken adapter s"
    by (simp add: AuthProvider_useEffect_def localStorage_getItem_def)
  from a have r: "adapter (request_interceptor me_request s) = Inl e" by simp
  note v = verifyToken_rejected [of adapter s e, OF r]
  show "localStorage (AuthProvider_useEffect adapter s) ''authToken'' = None"
    by (simp add: u v)
  show "localStorage (AuthProvider_useEffect adapter s) ''userData'' = None"
    by (simp add: u v)
  show "\<not> isAuthenticated (AuthProvider_useEffect adapter s)"
    by (simp add: u v)
  show "user (AuthProvider_useEffect adapter s) = None"
    by (simp add: u v)
  show "\<not> loading (AuthProvider_useEffect adapter s)"
    by (simp add: u v)
next
  assume a: "truthy (localStorage s ''authToken'') \<and>
      localStorage (AuthProvider_useEffect adapter s) ''authToken'' \<noteq> None"
  then have u: "AuthProvider_useEffect adapter s = verifyToken adapter s"
    by (simp add: AuthProvider_useEffect_def localStorage_getItem_def)
  show "\<exists>r. adapter (request_interceptor me_request s) = Inr r"
  proof (cases "adapter (request_interceptor me_request s)")
    case (Inl e')
    from verifyToken_rejected(1) [of adapter s e', OF Inl] a u show ?thesis by simp
  next
    case (Inr r)
    then show ?thesis by blast
  qed
qed

text \<open>The theorem at a start with a stored session while the backend cannot be reached.\<close>

theorem failed_verification_clears_session_witness:
  "localStorage (AuthProvider_useEffect (\<lambda>c. Inl network_failure)
       (AuthProvider_initial stored_session)) ''authToken'' = None \<and>
   localStorage (AuthProvider_useEffect (\<lambda>c. Inl network_failure)
       (AuthProvider_initial stored_session)) ''userData'' = None \<and>
   \<not> isAuthenticated (AuthProvider_useEffect (\<lambda>c. Inl network_failure)
       (AuthProvider_initial stored_session)) \<and>
   user (AuthProvider_useEffect (\<lambda>c. Inl network_failure)
       (AuthProvider_initial stored_session)) = None"
  using failed_verification_clears_session
    [of "AuthProvider_initial stored_session" "\<lambda>c. Inl network_failure" network_failure]
  by (simp add: AuthProvider_initial_def stored_session_def truthy_def)

section \<open>The persisted keys\<close>

lemmas environment_defs =
  localStorage_removeItem_def localStorage_setItem_def assign_location_href_def
  toast_success_def toast_error_def console_error_def localStorage_getItem_def

lemmas api_defs =
  api_request_def api_settle_def response_rejected_def response_fulfilled_def
  response_data_def authAPI_login_def authAPI_getCurrentUser_def authAPI_setup2FA_def
  authAPI_enable2FA_def authAPI_changePassword_def

lemmas store_defs =
  verifyToken_def AuthProvider_useEffect_def login_def login_catch_def logout_def updateUser_def
  changePassword_def setup2FA_def enable2FA_def

text \<open>
  Claim C5. Whatever operation of the program runs (a call of the API client, the
  start of the application, login, logout, the refresh of the profile, the change of
  the password, the set-up or the enabling of the second factor) and whatever the
  backend replies: every local-storage key other than \<open>authToken\<close> and \<open>userData\<close>
  keeps its value; the keys the operation removes are none or exactly these two;
  the keys it writes are among these two; and when it removes them, both are absent
  when it returns.
\<close>

theorem session_keys_cleared_together:
  "(\<forall>k. k \<noteq> ''authToken'' \<and> k \<noteq> ''userData'' \<longrightarrow>
       localStorage (perform J op s) k = localStorage s k)
   \<and> (set (removed_keys (new_effects s (perform J op s))) = {}
      \<or> set (removed_keys (new_effects s (perform J op s))) = {''authToken'', ''userData''})
   \<and> set (written_keys (new_effects s (perform J op s))) \<subseteq> {''authToken'', ''userData''}
   \<and> (removed_keys (new_effects s (perform J op s)) \<noteq> [] \<longrightarrow>
        localStorage (perform J op s) ''authToken'' = None \<and>
        localStorage (perform J op s) ''userData'' = None)"
proof (cases op)
  case (ApiCall config adapter)
  then show ?thesis
    by (auto simp add: new_effects_def environment_defs api_defs Let_def split: sum.splits)
next
  case (AppStart adapter)
  then show ?thesis
    by (auto simp add: new_effects_def environment_defs api_defs store_defs Let_def
        split: sum.splits)
next
  case (Login adapter uname pw totpCode)
  then show ?thesis
    by (auto simp add: new_effects_def environment_defs api_defs store_defs Let_def
        split: sum.splits option.splits)
next
  case Logout
  then show ?thesis
    by (auto simp add: new_effects_def environment_defs store_defs Let_def)
next
  case (UpdateUser adapter)
  then show ?thesis
    by (auto simp add: new_effects_def environment_defs api_defs store_defs Let_def
        split: sum.splits)
next
  case (ChangePassword adapter currentPassword newPassword)
  then show ?thesis
    by (auto simp add: new_effects_def environment_defs api_defs store_defs Let_def
        split: sum.splits)
next
  case (Setup2FA adapter)
  then show ?thesis
    by (auto simp add: new_effects_def environment_defs api_defs store_defs Let_def
        split: sum.splits)
next
  case (Enable2FA adapter me_adapter totpCode)
  then show ?thesis
    by (auto simp add: new_effects_def environment_defs api_defs store_defs Let_def
        split: sum.splits)
qed

text \<open>
  The theorem at a session with a third key in storage: a logout, and a call to
  \<open>/settings\<close> that is rejected with 401.
\<close>

theorem session_keys_cleared_together_witness:
  "localStorage (perform stringify_username Logout app_with_theme) ''theme'' = Some ''dark'' \<and>
   set (removed_keys (new_effects app_with_theme (perform stringify_username Logout app_with_theme)))
     = {''authToken'', ''userData''} \<and>
   localStorage (perform stringify_username Logout app_with_theme) ''authToken'' = None \<and>
   localStorage (perform stringify_username Logout app_with_theme) ''userData'' = None \<and>
   localStorage (perform stringify_username
       (ApiCall (api_get ''/settings'' []) (\<lambda>c. Inl unauthorized)) app_with_theme) ''theme''
     = Some ''dark'' \<and>
   localStorage (perform stringify_username
       (ApiCall (api_get ''/settings'' []) (\<lambda>c. Inl unauthorized)) app_with_theme) ''userData''
     = None"
  using session_keys_cleared_together [of stringify_username Logout app_with_theme]
        session_keys_cleared_together
          [of stringify_username "ApiCall (api_get ''/settings'' []) (\<lambda>c. Inl unauthorized)"
              app_with_theme]
  by (simp add: app_with_theme_def unauthorized_def new_effects_def environment_defs api_defs
      logout_def error_status_def Let_def)

section \<open>The mock authentication\<close>

text \<open>
  Claim C9. \<open>mockAuth.login\<close> checks the credentials before the second factor: when no
  user has the name, or the user found has another password, the result is the failure
  \<open>Invalid credentials\<close>, whatever the code and whether or not the user has
  \<open>totpEnabled\<close>; and a result that asks for the second factor is returned only for a
  user that was found, whose password matches and who has \<open>totpEnabled\<close>.
\<close>

theorem mock_login_checks_credentials_first:
  "(find (\<lambda>u. username u = uname) users = None \<or>
    (\<exists>u. find (\<lambda>u. username u = uname) users = Some u \<and> password u \<noteq> Some pw) \<longrightarrow>
      mockAuth_login users now uname pw totpCode =
        \<lparr>success = False, error = Some ''Invalid credentials'', requiresTOTP = None,
         result_user = None, token = None\<rparr>)
   \<and> (requiresTOTP (mockAuth_login users now uname pw totpCode) = Some True \<longrightarrow>
      (\<exists>u. find (\<lambda>u. username u = uname) users = Some u \<and> password u = Some pw \<and>
           totpEnabled u))"
  by (auto simp add: mockAuth_login_def split: option.splits if_splits)

text \<open>The theorem at a wrong password for \<open>admin\<close>, and at an unknown name.\<close>

theorem mock_login_checks_credentials_first_witness:
  "mockAuth_login (mockAuth_users ''2025-01-01T00:00:00.000Z'') 1700000000000
       ''admin'' ''wrongpass'' None =
     \<lparr>success = False, error = Some ''Invalid credentials'', requiresTOTP = None,
      result_user = None, token = None\<rparr> \<and>
   mockAuth_login (mockAuth_users ''2025-01-01T00:00:00.000Z'') 1700000000000
       ''nobody'' ''admin123'' None =
     \<lparr>success = False, error = Some ''Invalid credentials'', requiresTOTP = None,
      result_user = None, token = None\<rparr>"
  using mock_login_checks_credentials_first
          [of "''admin''" "mockAuth_users ''2025-01-01T00:00:00.000Z''" "''wrongpass''"
              1700000000000 None]
        mock_login_checks_credentials_first
          [of "''nobody''" "mockAuth_users ''2025-01-01T00:00:00.000Z''" "''admin123''"
              1700000000000 None]
  by (simp add: mockAuth_users_def)

text \<open>
  Claim C10. The user in the result of every successful \<open>mockAuth.login\<close> has its
  \<open>password\<close> undefined.
\<close>

theorem mock_login_result_has_no_password:
  "success (mockAuth_login users now uname pw totpCode) \<longrightarrow>
     map_option password (result_user (mockAuth_login users now uname pw totpCode)) = Some None"
  by (auto simp add: mockAuth_login_def split: option.splits if_splits)

theorem mock_login_result_has_no_password_witness:
  "success (mockAuth_login (mockAuth_users ''2025-01-01T00:00:00.000Z'') 1700000000000
       ''admin'' ''admin123'' (Some ''123456'')) \<and>
   map_option password
     (result_user (mockAuth_login (mockAuth_users ''2025-01-01T00:00:00.000Z'') 1700000000000
       ''admin'' ''admin123'' (Some ''123456''))) = Some None"
  using mock_login_result_has_no_password
          [of "mockAuth_users ''2025-01-01T00:00:00.000Z''" 1700000000000 "''admin''"
              "''admin123''" "Some ''123456''"]
  by (simp add: mockAuth_login_def mockAuth_users_def truthy_def)

section \<open>Polling timers of the views\<close>

lemma visit_inv_show: "visit_inv t (show_view c t)"
  by (cases c)
     (auto simp add: visit_inv_def Dashboard_effect_def SessionMonitor_effect_def
        LogsViewer_effect_def setInterval_def Let_def)

lemma visit_inv_step: "visit_inv t vt \<Longrightarrow> visit_inv t (view_step ev vt)"
proof (cases vt)
  case (Pair v t')
  assume inv: "visit_inv t vt"
  show ?thesis
  proof (cases ev)
    case Tick
    then show ?thesis using inv Pair by simp
  next
    case ToggleAutoRefresh
    show ?thesis
    proof (cases v)
      case (DashboardView cl)
      then show ?thesis using inv Pair ToggleAutoRefresh by simp
    next
      case (SessionMonitorView cl)
      then show ?thesis using inv Pair ToggleAutoRefresh by simp
    next
      case (LogsViewerView flag cl)
      then show ?thesis using inv Pair ToggleAutoRefresh
        by (cases cl; cases flag)
           (auto simp add: visit_inv_def LogsViewer_effect_def setInterval_def clearInterval_def
              run_cleanup_def Let_def)
    qed
  qed
qed

lemma visit_inv_steps:
  "visit_inv t vt \<Longrightarrow> visit_inv t (foldl (\<lambda>vt ev. view_step ev vt) vt evs)"
  by (induction evs arbitrary: vt) (simp_all add: visit_inv_step)

lemma visit_inv_hide:
  assumes "visit_inv t (v, t')"
  shows "next_id (hide_view (v, t')) = next_id t'"
    and "next_id t < next_id t'"
    and "next_id t \<le> i \<and> i < next_id t' \<Longrightarrow> active (hide_view (v, t')) i = None"
    and "i < next_id t \<or> next_id t' \<le> i \<Longrightarrow> active (hide_view (v, t')) i = active t i"
  using assms
  by (auto simp add: visit_inv_def hide_view_def run_cleanup_def clearInterval_def
      split: option.splits)

text \<open>
  Claim C7. For each of the three views that start a polling timer when shown
  (Dashboard, SessionMonitor, LogsViewer), whatever happens while the view is shown
  (timers firing, the log viewer paused and resumed): once the view is hidden, none of
  the timers it started is active, and every other timer is as it was. The view did
  start a timer: showing it registers one, with the view's interval, under the next
  free identifier.
\<close>

theorem polling_timers_cleared_when_view_hidden:
  "(\<forall>i. next_id t \<le> i \<and> i < next_id (view_visit c evs t) \<longrightarrow>
        active (view_visit c evs t) i = None)
   \<and> (\<forall>i. i < next_id t \<or> next_id (view_visit c evs t) \<le> i \<longrightarrow>
        active (view_visit c evs t) i = active t i)
   \<and> next_id t < next_id (view_visit c evs t)
   \<and> active (snd (show_view c t)) (next_id t) =
       Some (case c of Dashboard \<Rightarrow> 30000 | SessionMonitor \<Rightarrow> 2000 | LogsViewer \<Rightarrow> 5000)"
proof -
  obtain v t' where vt: "foldl (\<lambda>vt ev. view_step ev vt) (show_view c t) evs = (v, t')"
    by (cases "foldl (\<lambda>vt ev. view_step ev vt) (show_view c t) evs")
  have inv: "visit_inv t (v, t')"
    using visit_inv_steps [OF visit_inv_show, of t c evs] vt by simp
  have vv: "view_visit c evs t = hide_view (v, t')"
    by (simp add: view_visit_def vt)
  note h = visit_inv_hide [OF inv]
  have a: "\<forall>i. next_id t \<le> i \<and> i < next_id (view_visit c evs t) \<longrightarrow>
        active (view_visit c evs t) i = None"
    using h(1) h(3) by (simp add: vv)
  have b: "\<forall>i. i < next_id t \<or> next_id (view_visit c evs t) \<le> i \<longrightarrow>
        active (view_visit c evs t) i = active t i"
    using h(1) h(4) by (simp add: vv)
  have d: "next_id t < next_id (view_visit c evs t)"
    using h(1) h(2) by (simp add: vv)
  have e: "active (snd (show_view c t)) (next_id t) =
       Some (case c of Dashboard \<Rightarrow> 30000 | SessionMonitor \<Rightarrow> 2000 | LogsViewer \<Rightarrow> 5000)"
    by (cases c)
       (simp_all add: Dashboard_effect_def SessionMonitor_effect_def LogsViewer_effect_def
          setInterval_def Let_def)
  from a b d e show ?thesis by blast
qed

text \<open>
  The theorem at a log viewer that is paused and resumed between ticks, and at a
  dashboard, on a page with no timer yet.
\<close>

theorem polling_timers_cleared_when_view_hidden_witness:
  "active (view_visit LogsViewer [Tick, ToggleAutoRefresh, Tick, ToggleAutoRefresh, Tick]
             no_timers) 1 = None
   \<and> active (view_visit LogsViewer [Tick, ToggleAutoRefresh, Tick, ToggleAutoRefresh, Tick]
             no_timers) 2 = None
   \<and> next_id (view_visit LogsViewer [Tick, ToggleAutoRefresh, Tick, ToggleAutoRefresh, Tick]
             no_timers) = 3
   \<and> active (view_visit Dashboard [Tick] no_timers) 1 = None
   \<and> active (snd (show_view Dashboard no_timers)) 1 = Some 30000"
  using polling_timers_cleared_when_view_hidden
          [of no_timers LogsViewer "[Tick, ToggleAutoRefresh, Tick, ToggleAutoRefresh, Tick]"]
        polling_timers_cleared_when_view_hidden [of no_timers Dashboard "[Tick]"]
  by (simp add: no_timers_def view_visit_def hide_view_def run_cleanup_def
        Dashboard_effect_def LogsViewer_effect_def setInterval_def clearInterval_def Let_def)

end
